theory Spec2Isabelle
  imports Main
begin

section \<open>The store of the check-in subsystem\<close>

text \<open>
  The check-in subsystem of Kairos keeps its durable state in three SQLite tables
  (\<^verbatim>\<open>src/migrations/add_check_in_system.py\<close>) and its volatile state in two Python
  objects: the \<^verbatim>\<open>pending_check_in_id\<close> attribute of \<^verbatim>\<open>CheckInManager\<close> and the one-shot
  jobs of the scheduler. A table is the list of its rows, in insertion order; a
  nullable column is an \<open>option\<close>.

  A \<^verbatim>\<open>datetime\<close> is the number of microseconds since a fixed epoch and a \<^verbatim>\<open>date\<close> the
  number of days since that epoch. The sqlite3 adapter stores a datetime as the text
  \<^verbatim>\<open>YYYY-MM-DD HH:MM:SS[.ffffff]\<close>, whose order as text is the order in time, so the
  comparisons of the SQL statements are comparisons of these integers. The store is
  taken to be available: a failing sqlite3 call is outside the model, while the
  failures of the transport and of the classifier are inputs of it.
\<close>

type_synonym datetime = int
type_synonym date = int

definition second_us :: int where
  "second_us = 1000000"

definition minute_us :: int where
  "minute_us = 60 * second_us"

definition hour_us :: int where
  "hour_us = 60 * minute_us"

definition day_us :: int where
  "day_us = 24 * hour_us"

record check_in =
  ci_id :: int
  scheduled_time :: datetime
  sent_time :: "datetime option"
  response_time :: "datetime option"
  status :: string
  retry_count :: int

record activity_log =
  al_id :: int
  timestamp :: datetime
  user_response :: "string option"
  activity_summary :: "string option"
  productivity_type :: "string option"
  alignment_score :: "int option"
  matched_todo_id :: "int option"
  category :: "string option"
  reasoning :: "string option"
  check_in_id :: "int option"

record user_config =
  chat_id :: int
  check_ins_enabled :: int
  is_sleeping :: int
  sleep_start_time :: "datetime option"
  default_wake_time :: "string option"
  last_wake_time :: "datetime option"
  updated_at :: "datetime option"

text \<open>A one-shot job of the scheduler: \<^verbatim>\<open>_retry_check_in(chat_id, retry_count)\<close> at \<^verbatim>\<open>run_date\<close>.\<close>

record retry_job =
  run_date :: datetime
  job_chat_id :: int
  job_retry_count :: int

record kairos =
  check_ins :: "check_in list"
  activity_logs :: "activity_log list"
  user_configs :: "user_config list"
  pending_check_in_id :: "int option"
  jobs :: "retry_job list"

datatype error = TransportError | ValueError

text \<open>
  \<^verbatim>\<open>cursor.lastrowid\<close> after an insert into a table whose key is
  \<^verbatim>\<open>INTEGER PRIMARY KEY AUTOINCREMENT\<close>: one more than the largest key. The program
  never deletes a row of \<^verbatim>\<open>check_ins\<close> or \<^verbatim>\<open>activity_logs\<close>, so the largest key ever used
  is the largest key present.
\<close>

definition next_rowid :: "int list \<Rightarrow> int" where
  "next_rowid ids = fold max ids 0 + 1"

section \<open>CheckInManager\<close>

subsection \<open>send_check_in\<close>

text \<open>
  \<^verbatim>\<open>send_check_in\<close> inserts the row and commits, stores the new id in
  \<^verbatim>\<open>pending_check_in_id\<close>, and only then awaits \<^verbatim>\<open>bot.send_message\<close>. \<open>delivered\<close> is the
  outcome of that call: when it raises, the \<^verbatim>\<open>except\<close> clause logs and re-raises.
\<close>

definition send_check_in :: "datetime \<Rightarrow> bool \<Rightarrow> kairos \<Rightarrow> (error + int) \<times> kairos" where
  "send_check_in now delivered s =
     (let check_in_id = next_rowid (map ci_id (check_ins s));
          row = \<lparr>ci_id = check_in_id, scheduled_time = now, sent_time = Some now,
                 response_time = None, status = ''sent'', retry_count = 0\<rparr>;
          s' = s\<lparr>check_ins := check_ins s @ [row], pending_check_in_id := Some check_in_id\<rparr>
      in (if delivered then Inr check_in_id else Inl TransportError, s'))"

subsection \<open>get_pending_check_in and clear_pending_check_in\<close>

text \<open>
  \<^verbatim>\<open>ORDER BY sent_time DESC LIMIT 1\<close>: a row whose \<^verbatim>\<open>sent_time\<close> is largest, NULL
  being smaller than every value in SQLite. Among equal times SQL leaves the choice
  open; the model takes the first such row of the table.
\<close>

definition sent_time_le :: "datetime option \<Rightarrow> datetime option \<Rightarrow> bool" where
  "sent_time_le a b =
     (case a of None \<Rightarrow> True
      | Some x \<Rightarrow> (case b of None \<Rightarrow> False | Some y \<Rightarrow> x \<le> y))"

fun latest_sent :: "check_in list \<Rightarrow> check_in option" where
  "latest_sent [] = None"
| "latest_sent (r # rs) =
     (case latest_sent rs of
        None \<Rightarrow> Some r
      | Some r' \<Rightarrow> if sent_time_le (sent_time r') (sent_time r) then Some r else Some r')"

text \<open>
  \<^verbatim>\<open>not self.pending_check_in_id\<close> holds for \<^verbatim>\<open>None\<close> and for \<^verbatim>\<open>0\<close>. The function returns
  the pointer it ends with, and the pointer is part of the state.
\<close>

definition get_pending_check_in :: "kairos \<Rightarrow> int option \<times> kairos" where
  "get_pending_check_in s =
     (if pending_check_in_id s = None \<or> pending_check_in_id s = Some 0 then
        (case latest_sent (filter (\<lambda>r. status r = ''sent'') (check_ins s)) of
           None \<Rightarrow> (pending_check_in_id s, s)
         | Some r \<Rightarrow> (Some (ci_id r), s\<lparr>pending_check_in_id := Some (ci_id r)\<rparr>))
      else (pending_check_in_id s, s))"

definition clear_pending_check_in :: "kairos \<Rightarrow> kairos" where
  "clear_pending_check_in s = s\<lparr>pending_check_in_id := None\<rparr>"

subsection \<open>mark_stale_as_missed\<close>

text \<open>
  \<^verbatim>\<open>UPDATE check_ins SET status = 'missed' WHERE status = 'sent' AND sent_time < ?\<close>
  with the threshold \<^verbatim>\<open>datetime.now() - timedelta(minutes=90)\<close>. A comparison with NULL
  is not true, so a row without \<^verbatim>\<open>sent_time\<close> is not selected.
\<close>

definition is_stale :: "datetime \<Rightarrow> check_in \<Rightarrow> bool" where
  "is_stale threshold r =
     (status r = ''sent'' \<and> (case sent_time r of None \<Rightarrow> False | Some t \<Rightarrow> t < threshold))"

definition mark_stale_as_missed :: "datetime \<Rightarrow> kairos \<Rightarrow> kairos" where
  "mark_stale_as_missed now s =
     (let threshold = now - 90 * minute_us
      in s\<lparr>check_ins :=
             map (\<lambda>r. if is_stale threshold r then r\<lparr>status := ''missed''\<rparr> else r)
               (check_ins s)\<rparr>)"

subsection \<open>handle_sleep_button\<close>

definition handle_sleep_button :: "int \<Rightarrow> datetime \<Rightarrow> kairos \<Rightarrow> kairos" where
  "handle_sleep_button cid now s =
     s\<lparr>user_configs :=
         map (\<lambda>u. if chat_id u = cid
                   then u\<lparr>is_sleeping := 1, sleep_start_time := Some now, updated_at := Some now\<rparr>
                   else u)
           (user_configs s)\<rparr>"

subsection \<open>handle_wake_button\<close>

text \<open>
  \<^verbatim>\<open>wake_hour, wake_min = map(int, default_wake_time_str.split(':'))\<close>. Python's \<^verbatim>\<open>int\<close>
  of a string strips white space, reads an optional sign and then decimal digits, in
  which single underscores may stand between digits. A \<open>char\<close> is a code point below
  256 here, so the decimal digits of other scripts are not in the model.
\<close>

definition is_space :: "char \<Rightarrow> bool" where
  "is_space c = ((of_char c :: nat) \<in> {9, 10, 11, 12, 13, 28, 29, 30, 31, 32, 133, 160})"

definition py_strip :: "string \<Rightarrow> string" where
  "py_strip s = rev (dropWhile is_space (rev (dropWhile is_space s)))"

definition digit_val :: "char \<Rightarrow> int option" where
  "digit_val c =
     (let n = (of_char c :: nat) in if 48 \<le> n \<and> n \<le> 57 then Some (int n - 48) else None)"

fun py_digits :: "bool \<Rightarrow> int \<Rightarrow> string \<Rightarrow> int option" where
  "py_digits prev acc [] = (if prev then Some acc else None)"
| "py_digits prev acc (c # cs) =
     (if c = CHR ''_'' then (if prev then py_digits False acc cs else None)
      else (case digit_val c of
              None \<Rightarrow> None
            | Some d \<Rightarrow> py_digits True (10 * acc + d) cs))"

definition py_int :: "string \<Rightarrow> int option" where
  "py_int s =
     (case py_strip s of
        [] \<Rightarrow> None
      | c # cs \<Rightarrow>
          if c = CHR ''-'' then map_option uminus (py_digits False 0 cs)
          else if c = CHR ''+'' then py_digits False 0 cs
          else py_digits False 0 (c # cs))"

fun split_on :: "char \<Rightarrow> string \<Rightarrow> string list" where
  "split_on sep [] = [[]]"
| "split_on sep (c # cs) =
     (if c = sep then [] # split_on sep cs
      else (case split_on sep cs of
              [] \<Rightarrow> [[c]]
            | w # ws \<Rightarrow> (c # w) # ws))"

text \<open>
  Lines 134 to 139: the configured text, or \<^verbatim>\<open>"08:00"\<close> when it is NULL or empty, is
  split at the colons; unpacking asks for exactly two parts, each an \<^verbatim>\<open>int\<close>; and
  \<^verbatim>\<open>dt_time(wake_hour, wake_min)\<close> asks for an hour below 24 and a minute below 60. Each
  failure is a \<^verbatim>\<open>ValueError\<close>. \<^verbatim>\<open>datetime.combine\<close> puts the time of day on \<open>today\<close>.
\<close>

definition combine :: "date \<Rightarrow> int \<Rightarrow> int \<Rightarrow> datetime" where
  "combine day h m = day * day_us + h * hour_us + m * minute_us"

definition default_wake_datetime :: "date \<Rightarrow> string option \<Rightarrow> error + datetime" where
  "default_wake_datetime today dwt =
     (let default_wake_time_str =
            (case dwt of None \<Rightarrow> ''08:00'' | Some t \<Rightarrow> if t = [] then ''08:00'' else t)
      in case map py_int (split_on CHR '':'' default_wake_time_str) of
           [Some wake_hour, Some wake_min] \<Rightarrow>
             if 0 \<le> wake_hour \<and> wake_hour < 24 \<and> 0 \<le> wake_min \<and> wake_min < 60
             then Inr (combine today wake_hour wake_min)
             else Inl ValueError
         | _ \<Rightarrow> Inl ValueError)"

definition retroactive_start :: "date \<Rightarrow> user_config \<Rightarrow> datetime \<Rightarrow> error + datetime" where
  "retroactive_start today u sleep_start =
     (case default_wake_datetime today (default_wake_time u) of
        Inl e \<Rightarrow> Inl e
      | Inr default_wake \<Rightarrow> Inr (max sleep_start default_wake))"

text \<open>The first \<^verbatim>\<open>UPDATE\<close> of \<^verbatim>\<open>handle_wake_button\<close>, on one row.\<close>

definition in_window :: "datetime \<Rightarrow> datetime \<Rightarrow> check_in \<Rightarrow> bool" where
  "in_window lo hi r = (lo \<le> scheduled_time r \<and> scheduled_time r \<le> hi)"

definition mark_sleeping :: "datetime \<Rightarrow> datetime \<Rightarrow> check_in \<Rightarrow> check_in" where
  "mark_sleeping lo hi r =
     (if in_window lo hi r \<and> (status r = ''missed'' \<or> status r = ''pending'')
      then r\<lparr>status := ''sleeping''\<rparr> else r)"

text \<open>
  The body of the loop over \<^verbatim>\<open>sleeping_check_ins\<close>: a row of \<^verbatim>\<open>activity_logs\<close> is inserted
  for the check-in unless one with its \<^verbatim>\<open>check_in_id\<close> is there. The columns the
  \<^verbatim>\<open>INSERT\<close> does not name are NULL.
\<close>

definition sleeping_log :: "int \<Rightarrow> check_in \<Rightarrow> activity_log" where
  "sleeping_log new_id r =
     \<lparr>al_id = new_id, timestamp = scheduled_time r, user_response = None,
      activity_summary = Some ''Sleeping'', productivity_type = Some ''sleeping'',
      alignment_score = None, matched_todo_id = None, category = None, reasoning = None,
      check_in_id = Some (ci_id r)\<rparr>"

definition add_sleeping_log :: "check_in \<Rightarrow> activity_log list \<Rightarrow> activity_log list" where
  "add_sleeping_log r logs =
     (if \<exists>l \<in> set logs. check_in_id l = Some (ci_id r) then logs
      else logs @ [sleeping_log (next_rowid (map al_id logs)) r])"

text \<open>
  \<^verbatim>\<open>fetchone\<close> after \<^verbatim>\<open>SELECT ... FROM user_config WHERE chat_id = ?\<close> is the first row of the
  chat (\<open>find\<close>), or \<^verbatim>\<open>None\<close>; the column \<^verbatim>\<open>chat_id\<close> is \<^verbatim>\<open>UNIQUE\<close>.
  \<open>today\<close> and \<open>now\<close> are the two readings of the clock, \<^verbatim>\<open>datetime.now().date()\<close> and
  \<^verbatim>\<open>datetime.now()\<close>. The rows of the \<^verbatim>\<open>SELECT\<close> come in table order (SQL leaves the order
  open; it decides only which key a new log row gets). The function returns
  \<^verbatim>\<open>round((now - sleep_start_time).total_seconds() / 3600, 1)\<close>, a float; the model returns
  the elapsed microseconds instead, and \<open>0\<close> where the source returns \<open>0\<close>. A
  \<^verbatim>\<open>ValueError\<close> is raised before the first write, so the store is as it was.
\<close>

definition handle_wake_button :: "int \<Rightarrow> date \<Rightarrow> datetime \<Rightarrow> kairos \<Rightarrow> (error + int) \<times> kairos" where
  "handle_wake_button cid today now s =
     (case find (\<lambda>u. chat_id u = cid) (user_configs s) of
        None \<Rightarrow> (Inr 0, s)
      | Some u \<Rightarrow>
          (case sleep_start_time u of
             None \<Rightarrow> (Inr 0, s)
           | Some sleep_start \<Rightarrow>
               (case retroactive_start today u sleep_start of
                  Inl e \<Rightarrow> (Inl e, s)
                | Inr lo \<Rightarrow>
                    (let rows = map (mark_sleeping lo now) (check_ins s);
                         sleeping_check_ins =
                           filter (\<lambda>r. status r = ''sleeping'' \<and> in_window lo now r) rows;
                         logs = fold add_sleeping_log sleeping_check_ins (activity_logs s);
                         configs =
                           map (\<lambda>c. if chat_id c = cid
                                     then c\<lparr>is_sleeping := 0, last_wake_time := Some now,
                                            updated_at := Some now\<rparr>
                                     else c)
                             (user_configs s)
                     in (Inr (now - sleep_start),
                         s\<lparr>check_ins := rows, activity_logs := logs, user_configs := configs\<rparr>)))))"

section \<open>CheckInScheduler\<close>

text \<open>
  \<^verbatim>\<open>_get_configured_chat_id\<close> takes the first row with \<^verbatim>\<open>check_ins_enabled = 1\<close>, and
  \<^verbatim>\<open>_is_user_sleeping\<close> reads \<^verbatim>\<open>is_sleeping\<close> of the row of the chat.
\<close>

definition get_configured_chat_id :: "kairos \<Rightarrow> int option" where
  "get_configured_chat_id s =
     (case find (\<lambda>u. check_ins_enabled u = 1) (user_configs s) of
        None \<Rightarrow> None
      | Some u \<Rightarrow> Some (chat_id u))"

definition is_user_sleeping :: "int \<Rightarrow> kairos \<Rightarrow> bool" where
  "is_user_sleeping cid s =
     (case find (\<lambda>u. chat_id u = cid) (user_configs s) of
        None \<Rightarrow> False
      | Some u \<Rightarrow> is_sleeping u = 1)"

text \<open>
  \<^verbatim>\<open>_is_user_busy\<close> as the repository has it returns \<^verbatim>\<open>False\<close> for every chat, its comments
  announcing a later version that tracks the conversation. The two callbacks below take
  the answer of that method as the input \<open>busy\<close>, so that they are modelled for every
  busy predicate; with \<open>is_user_busy\<close> for it they are the program as it stands.
\<close>

definition is_user_busy :: "int \<Rightarrow> bool" where
  "is_user_busy cid = False"

text \<open>\<^verbatim>\<open>datetime.now().replace(second=0, microsecond=0)\<close>\<close>

definition floor_minute :: "datetime \<Rightarrow> datetime" where
  "floor_minute now = now - now mod minute_us"

definition job :: "datetime \<Rightarrow> int \<Rightarrow> int \<Rightarrow> retry_job" where
  "job at cid n = \<lparr>run_date = at, job_chat_id = cid, job_retry_count = n\<rparr>"

definition add_job :: "datetime \<Rightarrow> int \<Rightarrow> int \<Rightarrow> kairos \<Rightarrow> kairos" where
  "add_job at cid n s = s\<lparr>jobs := jobs s @ [job at cid n]\<rparr>"

text \<open>
  \<^verbatim>\<open>_send_hourly_check_in\<close>: \<^verbatim>\<open>not chat_id\<close> holds for \<^verbatim>\<open>None\<close> and for \<^verbatim>\<open>0\<close>. An exception of
  \<^verbatim>\<open>send_check_in\<close> is caught and logged, so only the state is left of the call.
\<close>

definition send_hourly_check_in :: "datetime \<Rightarrow> bool \<Rightarrow> bool \<Rightarrow> kairos \<Rightarrow> kairos" where
  "send_hourly_check_in now busy delivered s =
     (case get_configured_chat_id s of
        None \<Rightarrow> s
      | Some cid \<Rightarrow>
          if cid = 0 then s
          else if is_user_sleeping cid s then s
          else if busy then add_job (floor_minute now + 5 * minute_us) cid 1 s
          else snd (send_check_in now delivered s))"

definition retry_check_in :: "datetime \<Rightarrow> bool \<Rightarrow> bool \<Rightarrow> int \<Rightarrow> int \<Rightarrow> kairos \<Rightarrow> kairos" where
  "retry_check_in now busy delivered cid retry_no s =
     (if retry_no > 3 then s
      else if busy then
        (let next_interval = (if retry_no = 1 then 5 else 10)
         in add_job (floor_minute now + next_interval * minute_us) cid (retry_no + 1) s)
      else snd (send_check_in now delivered s))"

definition cleanup_stale_check_ins :: "datetime \<Rightarrow> kairos \<Rightarrow> kairos" where
  "cleanup_stale_check_ins now s = mark_stale_as_missed now s"

text \<open>
  The scheduler runs a one-shot job once and forgets it: the job leaves the list and
  \<^verbatim>\<open>_retry_check_in\<close> runs with the arguments stored in it, at the time \<open>now\<close>.
\<close>

definition run_job :: "datetime \<Rightarrow> bool \<Rightarrow> bool \<Rightarrow> retry_job \<Rightarrow> kairos \<Rightarrow> kairos" where
  "run_job now busy delivered j s =
     retry_check_in now busy delivered (job_chat_id j) (job_retry_count j)
       (s\<lparr>jobs := remove1 j (jobs s)\<rparr>)"

text \<open>
  The three kinds of tick, each with the readings it takes from outside: the clock, the
  busy predicate and whether the transport delivers. Ticks run one after the other.
\<close>

datatype tick =
    HourlyTick datetime bool bool
  | RetryTick datetime bool bool int int
  | MaintenanceTick datetime

fun run_tick :: "tick \<Rightarrow> kairos \<Rightarrow> kairos" where
  "run_tick (HourlyTick now busy delivered) s = send_hourly_check_in now busy delivered s"
| "run_tick (RetryTick now busy delivered cid n) s = retry_check_in now busy delivered cid n s"
| "run_tick (MaintenanceTick now) s = cleanup_stale_check_ins now s"

definition run_ticks :: "tick list \<Rightarrow> kairos \<Rightarrow> kairos" where
  "run_ticks ts s = fold run_tick ts s"

definition sent_rows :: "kairos \<Rightarrow> check_in list" where
  "sent_rows s = filter (\<lambda>r. status r = ''sent'') (check_ins s)"

section \<open>ActivityAnalyzer\<close>

text \<open>
  The dictionary that \<^verbatim>\<open>analyze_activity\<close> returns, with the keys of the prompt; a key that
  is absent reads as \<^verbatim>\<open>None\<close> through \<^verbatim>\<open>dict.get\<close>.
\<close>

record analysis =
  an_activity_summary :: "string option"
  an_productivity_type :: "string option"
  an_matched_todo_id :: "int option"
  an_alignment_score :: "int option"
  an_category :: "string option"
  an_reasoning :: "string option"
  an_feedback :: "string option"

text \<open>
  What the call of the classifier and the reading of its answer lead to:
  \<^verbatim>\<open>generate_content\<close> or \<^verbatim>\<open>response.text\<close> raises (with the text of the exception),
  \<^verbatim>\<open>json.loads\<close> raises \<^verbatim>\<open>JSONDecodeError\<close>, it returns a value that is not a dictionary (the
  first \<^verbatim>\<open>analysis.get\<close> then raises, with that text), or it returns a dictionary.
\<close>

datatype classifier_outcome =
    Raises string
  | NotJson
  | NotDict string
  | Parsed analysis

definition parse_fallback :: "string \<Rightarrow> analysis" where
  "parse_fallback user_resp =
     \<lparr>an_activity_summary = Some (take 100 user_resp),
      an_productivity_type = Some ''beneficial'',
      an_matched_todo_id = None,
      an_alignment_score = Some 5,
      an_category = Some ''Unknown'',
      an_reasoning = Some ''Analysis pending - manual review required'',
      an_feedback = Some ''Activity logged. I had trouble analyzing it automatically.''\<rparr>"

definition error_fallback :: "string \<Rightarrow> string \<Rightarrow> analysis" where
  "error_fallback user_resp msg =
     \<lparr>an_activity_summary = Some (take 100 user_resp),
      an_productivity_type = Some ''beneficial'',
      an_matched_todo_id = None,
      an_alignment_score = Some 5,
      an_category = Some ''Unknown'',
      an_reasoning = Some msg,
      an_feedback = Some ''Activity logged successfully.''\<rparr>"

definition save_activity_log :: "datetime \<Rightarrow> int \<Rightarrow> string \<Rightarrow> analysis \<Rightarrow> kairos \<Rightarrow> kairos" where
  "save_activity_log now cid_row user_resp a s =
     s\<lparr>activity_logs := activity_logs s @
          [\<lparr>al_id = next_rowid (map al_id (activity_logs s)), timestamp = now,
            user_response = Some user_resp,
            activity_summary = an_activity_summary a,
            productivity_type = an_productivity_type a,
            alignment_score = an_alignment_score a,
            matched_todo_id = an_matched_todo_id a,
            category = an_category a,
            reasoning = an_reasoning a,
            check_in_id = Some cid_row\<rparr>]\<rparr>"

definition update_check_in_status :: "datetime \<Rightarrow> int \<Rightarrow> string \<Rightarrow> kairos \<Rightarrow> kairos" where
  "update_check_in_status now cid_row st s =
     s\<lparr>check_ins :=
         map (\<lambda>r. if ci_id r = cid_row then r\<lparr>status := st, response_time := Some now\<rparr> else r)
           (check_ins s)\<rparr>"

text \<open>
  \<^verbatim>\<open>analyze_activity\<close>, with the two readings of the clock (the log row, then the status
  update). The statements that save the log and update the check-in stand inside the
  outer \<^verbatim>\<open>try\<close>, after the call of the classifier: an exception of that call goes to the
  outer \<^verbatim>\<open>except\<close>, which returns its own dictionary and writes nothing.
\<close>

definition analyze_activity ::
  "datetime \<Rightarrow> datetime \<Rightarrow> string \<Rightarrow> int \<Rightarrow> classifier_outcome \<Rightarrow> kairos \<Rightarrow> analysis \<times> kairos" where
  "analyze_activity t_log t_update user_resp cid_row outcome s =
     (case outcome of
        Raises msg \<Rightarrow> (error_fallback user_resp msg, s)
      | NotDict msg \<Rightarrow> (error_fallback user_resp msg, s)
      | NotJson \<Rightarrow>
          (let a = parse_fallback user_resp
           in (a, update_check_in_status t_update cid_row ''completed''
                    (save_activity_log t_log cid_row user_resp a s)))
      | Parsed a \<Rightarrow>
          (a, update_check_in_status t_update cid_row ''completed''
                (save_activity_log t_log cid_row user_resp a s)))"

section \<open>Stores used as concrete inputs\<close>

text \<open>
  The recipient of the examples: chat 42, check-ins enabled, awake, no sleep recorded,
  default wake time \<^verbatim>\<open>08:00\<close>. Times are written \<open>combine day hour minute\<close>.
\<close>

definition recipient :: user_config where
  "recipient =
     \<lparr>chat_id = 42, check_ins_enabled = 1, is_sleeping = 0, sleep_start_time = None,
      default_wake_time = Some ''08:00'', last_wake_time = None, updated_at = None\<rparr>"

definition empty_store :: kairos where
  "empty_store =
     \<lparr>check_ins = [], activity_logs = [], user_configs = [recipient],
      pending_check_in_id = None, jobs = []\<rparr>"

definition row_at :: "int \<Rightarrow> datetime \<Rightarrow> string \<Rightarrow> check_in" where
  "row_at i t st =
     \<lparr>ci_id = i, scheduled_time = t, sent_time = Some t, response_time = None,
      status = st, retry_count = 0\<rparr>"

text \<open>Two prompts awaiting a reply, sent at 10:00 and at 11:00 of day 0.\<close>

definition two_sent :: kairos where
  "two_sent =
     empty_store\<lparr>check_ins := [row_at 1 (combine 0 10 0) ''sent'', row_at 2 (combine 0 11 0) ''sent''],
                 pending_check_in_id := Some 2\<rparr>"

text \<open>One prompt awaiting a reply, sent at 10:00 of day 0.\<close>

definition one_sent :: kairos where
  "one_sent =
     empty_store\<lparr>check_ins := [row_at 1 (combine 0 10 0) ''sent''], pending_check_in_id := Some 1\<rparr>"

text \<open>
  The time of day as the specification has it, \<^verbatim>\<open>HH:MM\<close> with two decimal digits each: the
  text of \<^verbatim>\<open>default_wake_time\<close> for the hour \<open>h\<close> and the minute \<open>m\<close>.
\<close>

definition digit_char :: "nat \<Rightarrow> char" where
  "digit_char d = char_of (48 + d)"

definition two_digits :: "nat \<Rightarrow> string" where
  "two_digits n = [digit_char (n div 10), digit_char (n mod 10)]"

definition hhmm :: "nat \<Rightarrow> nat \<Rightarrow> string" where
  "hhmm h m = two_digits h @ [CHR '':''] @ two_digits m"

text \<open>
  The recipient pressed Sleep at 23:00 of day 0, and the store holds four prompts of the
  morning of day 1: one of 07:00 and one of 08:00 that the sweep marked \<^verbatim>\<open>missed\<close>, one of
  09:00 still \<^verbatim>\<open>sent\<close>, and one of 09:30 that was answered, with its activity log.
\<close>

definition sleeper :: user_config where
  "sleeper = recipient\<lparr>is_sleeping := 1, sleep_start_time := Some (combine 0 23 0)\<rparr>"

definition reply_log :: "int \<Rightarrow> int \<Rightarrow> datetime \<Rightarrow> activity_log" where
  "reply_log i c t =
     \<lparr>al_id = i, timestamp = t, user_response = Some ''read the news'',
      activity_summary = Some ''Reading news'', productivity_type = Some ''beneficial'',
      alignment_score = Some 5, matched_todo_id = None, category = Some ''Personal'',
      reasoning = Some ''Not on the list'', check_in_id = Some c\<rparr>"

definition after_night :: kairos where
  "after_night =
     \<lparr>check_ins = [row_at 1 (combine 1 7 0) ''missed'', row_at 2 (combine 1 8 0) ''missed'',
                   row_at 3 (combine 1 9 0) ''sent'',
                   (row_at 4 (combine 1 9 30) ''completed'')\<lparr>response_time := Some (combine 1 9 40)\<rparr>],
      activity_logs = [reply_log 1 4 (combine 1 9 40)],
      user_configs = [sleeper],
      pending_check_in_id = None, jobs = []\<rparr>"

text \<open>
  The pointer left on check-in 1, which the sweep has marked \<^verbatim>\<open>missed\<close>, while check-in 2
  awaits a reply.
\<close>

definition stale_pointer :: kairos where
  "stale_pointer =
     empty_store\<lparr>check_ins := [row_at 1 (combine 0 10 0) ''missed'', row_at 2 (combine 0 11 0) ''sent''],
                 pending_check_in_id := Some 1\<rparr>"



section \<open>Properties\<close>

lemmas example_defs = two_sent_def empty_store_def recipient_def row_at_def combine_def
  day_us_def hour_us_def minute_us_def second_us_def

subsection \<open>Row keys\<close>

lemma fold_max_ge_init: "a \<le> fold max ids (a::int)"
  by (induction ids arbitrary: a) (auto intro: order_trans [OF max.cobounded2])

lemma fold_max_ge_elem: "x \<in> set ids \<Longrightarrow> x \<le> fold max ids (a::int)"
proof (induction ids arbitrary: a)
  case Nil
  then show ?case by simp
next
  case (Cons y ys)
  show ?case
  proof (cases "x = y")
    case True
    have "y \<le> max y a" by simp
    also have "\<dots> \<le> fold max ys (max y a)" by (rule fold_max_ge_init)
    finally show ?thesis using True by simp
  next
    case False
    with Cons show ?thesis by simp
  qed
qed

lemma next_rowid_fresh: "next_rowid ids \<notin> set ids"
proof
  assume "next_rowid ids \<in> set ids"
  then have "next_rowid ids \<le> fold max ids 0" by (rule fold_max_ge_elem)
  then show False by (simp add: next_rowid_def)
qed

subsection \<open>Dispatch and delivery\<close>

text \<open>
  C10. \<^verbatim>\<open>send_check_in\<close> is not atomic with respect to delivery. When the transport
  raises, the caller gets the exception, and the store is the one a successful
  delivery leaves: the new row, with a key no other row has and status \<^verbatim>\<open>sent\<close>, is in
  \<^verbatim>\<open>check_ins\<close>, and the pending pointer holds its key.
\<close>

theorem send_check_in_not_atomic:
  "fst (send_check_in now False s) = Inl TransportError
   \<and> snd (send_check_in now False s) = snd (send_check_in now True s)
   \<and> check_ins (snd (send_check_in now False s)) =
       check_ins s @ [\<lparr>ci_id = next_rowid (map ci_id (check_ins s)), scheduled_time = now,
                       sent_time = Some now, response_time = None, status = ''sent'',
                       retry_count = 0\<rparr>]
   \<and> next_rowid (map ci_id (check_ins s)) \<notin> set (map ci_id (check_ins s))
   \<and> pending_check_in_id (snd (send_check_in now False s)) =
       Some (next_rowid (map ci_id (check_ins s)))"
  using next_rowid_fresh [of "map ci_id (check_ins s)"]
  by (simp add: send_check_in_def Let_def)

subsection \<open>Wake without sleep\<close>

text \<open>
  C7. If the row of the recipient has no \<^verbatim>\<open>sleep_start_time\<close> (or the recipient has no
  row), \<^verbatim>\<open>handle_wake_button\<close> returns 0 and the whole state, with every check-in, every
  activity log and every field of the configuration, is as it was.
\<close>

theorem handle_wake_without_sleep:
  "(\<forall>u. find (\<lambda>u. chat_id u = cid) (user_configs s) = Some u \<longrightarrow> sleep_start_time u = None)
   \<Longrightarrow> handle_wake_button cid today now s = (Inr 0, s)"
  by (simp add: handle_wake_button_def split: option.splits)

text \<open>The recipient of \<open>two_sent\<close> never pressed Sleep: Wake at 12:00 returns 0 and changes nothing.\<close>

theorem handle_wake_without_sleep_witness:
  "find (\<lambda>u. chat_id u = 42) (user_configs two_sent) = Some recipient
   \<and> sleep_start_time recipient = None
   \<and> handle_wake_button 42 0 (combine 0 12 0) two_sent = (Inr 0, two_sent)"
  using handle_wake_without_sleep [of 42 two_sent 0 "combine 0 12 0"]
  by (simp add: two_sent_def empty_store_def recipient_def)

subsection \<open>The staleness sweep\<close>

lemma sweep_row_twice:
  "(if is_stale (b - k) (if is_stale (a - k) r then r\<lparr>status := ''missed''\<rparr> else r)
    then (if is_stale (a - k) r then r\<lparr>status := ''missed''\<rparr> else r)\<lparr>status := ''missed''\<rparr>
    else (if is_stale (a - k) r then r\<lparr>status := ''missed''\<rparr> else r))
   = (if is_stale (max a b - k) r then r\<lparr>status := ''missed''\<rparr> else r)"
  by (cases "sent_time r") (auto simp: is_stale_def)

lemma mark_stale_twice:
  "mark_stale_as_missed b (mark_stale_as_missed a s) = mark_stale_as_missed (max a b) s"
  by (simp add: mark_stale_as_missed_def Let_def o_def sweep_row_twice)

text \<open>
  C5, as amended. The sweep at time \<open>now\<close> moves a row from \<^verbatim>\<open>sent\<close> to \<^verbatim>\<open>missed\<close> if and
  only if its \<^verbatim>\<open>sent_time\<close> is set and lies more than 90 minutes before \<open>now\<close>; every other
  row, every other column and every other table is as it was; and a sweep after a
  sweep is the single sweep at the later of the two times, so a repeated sweep at the
  same or an earlier time changes nothing.
\<close>

theorem mark_stale_as_missed_sweep:
  "length (check_ins (mark_stale_as_missed now s)) = length (check_ins s)
   \<and> (\<forall>i < length (check_ins s).
        check_ins (mark_stale_as_missed now s) ! i =
          (if status (check_ins s ! i) = ''sent''
              \<and> (\<exists>t. sent_time (check_ins s ! i) = Some t \<and> 90 * minute_us < now - t)
           then (check_ins s ! i)\<lparr>status := ''missed''\<rparr>
           else check_ins s ! i))
   \<and> activity_logs (mark_stale_as_missed now s) = activity_logs s
   \<and> user_configs (mark_stale_as_missed now s) = user_configs s
   \<and> pending_check_in_id (mark_stale_as_missed now s) = pending_check_in_id s
   \<and> jobs (mark_stale_as_missed now s) = jobs s
   \<and> mark_stale_as_missed now' (mark_stale_as_missed now s) =
       mark_stale_as_missed (max now now') s"
proof -
  have row: "\<And>r. is_stale (now - 90 * minute_us) r
      = (status r = ''sent'' \<and> (\<exists>t. sent_time r = Some t \<and> 90 * minute_us < now - t))"
    by (auto simp: is_stale_def split: option.splits)
  show ?thesis
    by (simp add: mark_stale_twice) (simp add: mark_stale_as_missed_def Let_def row)
qed

text \<open>
  Of the two rows of \<open>two_sent\<close>, the sweep at 11:31 moves the one sent at 10:00 and leaves
  the one sent at 11:00.
\<close>

theorem mark_stale_as_missed_sweep_witness:
  "(0::nat) < length (check_ins two_sent)
   \<and> status (check_ins two_sent ! 0) = ''sent''
   \<and> sent_time (check_ins two_sent ! 0) = Some (combine 0 10 0)
   \<and> 90 * minute_us < combine 0 11 31 - combine 0 10 0
   \<and> map status (check_ins (mark_stale_as_missed (combine 0 11 31) two_sent)) = [''missed'', ''sent'']"
  using mark_stale_as_missed_sweep [of "combine 0 11 31" two_sent]
  by (simp add: example_defs mark_stale_as_missed_def is_stale_def)

text \<open>
  C5 as stated fails at the boundary: at 11:30 exactly 90 minutes have elapsed since the
  row of 10:00 was sent, no reply has arrived, and the sweep leaves it \<^verbatim>\<open>sent\<close>, the
  comparison \<^verbatim>\<open>sent_time < threshold\<close> being strict.
\<close>

theorem mark_stale_at_90_minutes_counterexample:
  "combine 0 11 30 - combine 0 10 0 = 90 * minute_us
   \<and> status (check_ins two_sent ! 0) = ''sent''
   \<and> sent_time (check_ins two_sent ! 0) = Some (combine 0 10 0)
   \<and> status (check_ins (mark_stale_as_missed (combine 0 11 30) two_sent) ! 0) = ''sent''"
  by (simp add: example_defs mark_stale_as_missed_def is_stale_def)


subsection \<open>Prompts awaiting a reply\<close>

lemma sent_rows_send_check_in:
  "sent_rows (snd (send_check_in now delivered s)) =
     sent_rows s @ [\<lparr>ci_id = next_rowid (map ci_id (check_ins s)), scheduled_time = now,
                     sent_time = Some now, response_time = None, status = ''sent'',
                     retry_count = 0\<rparr>]"
  by (simp add: sent_rows_def send_check_in_def Let_def)

lemma sent_rows_add_job: "sent_rows (add_job at cid n s) = sent_rows s"
  by (simp add: sent_rows_def add_job_def)

lemma filter_map_shrinks:
  "(\<And>x. P (f x) \<Longrightarrow> P x) \<Longrightarrow> length (filter P (map f xs)) \<le> length (filter P xs)"
  by (induction xs) auto

lemma sent_rows_mark_stale:
  "length (sent_rows (mark_stale_as_missed now s)) \<le> length (sent_rows s)"
proof -
  have "length (filter (\<lambda>r. status r = ''sent'')
          (map (\<lambda>r. if is_stale (now - 90 * minute_us) r then r\<lparr>status := ''missed''\<rparr> else r)
             (check_ins s)))
        \<le> length (filter (\<lambda>r. status r = ''sent'') (check_ins s))"
    by (rule filter_map_shrinks) (simp split: if_splits)
  then show ?thesis
    by (simp add: sent_rows_def mark_stale_as_missed_def Let_def)
qed

lemma sent_rows_hourly:
  "length (sent_rows (send_hourly_check_in now busy delivered s)) \<le> length (sent_rows s) + 1"
  by (simp add: send_hourly_check_in_def sent_rows_send_check_in sent_rows_add_job
      split: option.splits)

lemma sent_rows_retry:
  "length (sent_rows (retry_check_in now busy delivered cid n s)) \<le> length (sent_rows s) + 1"
  by (simp add: retry_check_in_def sent_rows_send_check_in sent_rows_add_job Let_def)

lemma sent_rows_tick: "length (sent_rows (run_tick t s)) \<le> length (sent_rows s) + 1"
proof (cases t)
  case (HourlyTick now busy delivered)
  then show ?thesis using sent_rows_hourly [of now busy delivered s] by simp
next
  case (RetryTick now busy delivered cid n)
  then show ?thesis using sent_rows_retry [of now busy delivered cid n s] by simp
next
  case (MaintenanceTick now)
  then show ?thesis
    using sent_rows_mark_stale [of now s] by (simp add: cleanup_stale_check_ins_def)
qed

lemma sent_rows_ticks:
  "length (sent_rows (fold run_tick ts s)) \<le> length (sent_rows s) + length ts"
proof (induction ts arbitrary: s)
  case Nil
  then show ?case by simp
next
  case (Cons t ts)
  have "length (sent_rows (fold run_tick ts (run_tick t s)))
        \<le> length (sent_rows (run_tick t s)) + length ts"
    by (rule Cons.IH)
  also have "\<dots> \<le> (length (sent_rows s) + 1) + length ts"
    using sent_rows_tick [of t s] by simp
  finally show ?case by simp
qed

text \<open>
  C1, as amended. A tick adds at most one row with status \<^verbatim>\<open>sent\<close>, so after a sequence
  of hourly, retry and maintenance ticks, run one after the other, there are at most as
  many more such rows as there were ticks; a maintenance tick adds none. An hourly tick
  that finds the recipient enabled, awake and not busy dispatches whether or not a row
  with status \<^verbatim>\<open>sent\<close> is there: it adds one such row to those that exist and points the
  pending pointer at it.
\<close>

theorem ticks_add_sent_rows:
  "length (sent_rows (run_ticks ts s)) \<le> length (sent_rows s) + length ts
   \<and> length (sent_rows (run_tick (MaintenanceTick t) s)) \<le> length (sent_rows s)
   \<and> (get_configured_chat_id s = Some cid \<and> cid \<noteq> 0 \<and> \<not> is_user_sleeping cid s \<longrightarrow>
        sent_rows (send_hourly_check_in now False delivered s) =
          sent_rows s @ [\<lparr>ci_id = next_rowid (map ci_id (check_ins s)), scheduled_time = now,
                          sent_time = Some now, response_time = None, status = ''sent'',
                          retry_count = 0\<rparr>]
        \<and> pending_check_in_id (send_hourly_check_in now False delivered s) =
            Some (next_rowid (map ci_id (check_ins s))))"
proof -
  have "pending_check_in_id (snd (send_check_in now delivered s)) =
          Some (next_rowid (map ci_id (check_ins s)))"
    by (simp add: send_check_in_def Let_def)
  then show ?thesis
    using sent_rows_mark_stale [of t s]
    by (simp add: run_ticks_def sent_rows_ticks send_hourly_check_in_def sent_rows_send_check_in
        cleanup_stale_check_ins_def)
qed

lemmas sched_defs = run_ticks_def send_hourly_check_in_def get_configured_chat_id_def
  is_user_sleeping_def send_check_in_def next_rowid_def cleanup_stale_check_ins_def
  mark_stale_as_missed_def is_stale_def sent_rows_def Let_def

text \<open>
  C1 as stated fails on the cadence of the scheduler itself: the hourly ticks of 10:00
  and 11:00, with the maintenance ticks of 10:00, 10:30 and 11:00, the busy predicate of
  the repository and no reply, lead from the empty store to \<open>two_sent\<close>, where two rows
  have status \<^verbatim>\<open>sent\<close>. Neither \<^verbatim>\<open>_send_hourly_check_in\<close> nor \<^verbatim>\<open>send_check_in\<close> looks for an
  outstanding prompt.
\<close>

theorem second_prompt_while_sent_counterexample:
  "run_ticks [HourlyTick (combine 0 10 0) (is_user_busy 42) True,
              MaintenanceTick (combine 0 10 0), MaintenanceTick (combine 0 10 30),
              HourlyTick (combine 0 11 0) (is_user_busy 42) True,
              MaintenanceTick (combine 0 11 0)]
     empty_store = two_sent
   \<and> map status (check_ins two_sent) = [''sent'', ''sent'']"
  by (simp add: sched_defs example_defs is_user_busy_def)

text \<open>The hourly tick of 12:00 on \<open>two_sent\<close> adds a third row with status \<^verbatim>\<open>sent\<close>.\<close>

theorem ticks_add_sent_rows_witness:
  "get_configured_chat_id two_sent = Some 42 \<and> \<not> is_user_sleeping 42 two_sent
   \<and> length (sent_rows two_sent) = 2
   \<and> map ci_id (sent_rows (send_hourly_check_in (combine 0 12 0) False True two_sent)) = [1, 2, 3]
   \<and> pending_check_in_id (send_hourly_check_in (combine 0 12 0) False True two_sent) = Some 3
   \<and> length (sent_rows (run_ticks [HourlyTick (combine 0 12 0) False True] two_sent)) \<le> 2 + 1"
  using ticks_add_sent_rows [where ts = "[HourlyTick (combine 0 12 0) False True]" and s = two_sent
      and cid = 42 and now = "combine 0 12 0" and delivered = True]
  by (simp add: sched_defs example_defs)


subsection \<open>Retries while the recipient is busy\<close>

lemma floor_minute_on_minute:
  assumes "T mod minute_us = 0" "0 \<le> l" "l < minute_us"
  shows "floor_minute (T + l) = T"
proof -
  have "(T + l) mod minute_us = (T mod minute_us + l mod minute_us) mod minute_us"
    by (simp add: mod_add_eq)
  also have "\<dots> = l" using assms by simp
  finally show ?thesis by (simp add: floor_minute_def)
qed

lemma run_job_busy:
  assumes "n \<le> 3" "T mod minute_us = 0" "0 \<le> l" "l < minute_us"
  shows "run_job (T + l) True d (job T cid n) (s\<lparr>jobs := [job T cid n]\<rparr>) =
           s\<lparr>jobs := [job (T + (if n = 1 then 5 else 10) * minute_us) cid (n + 1)]\<rparr>"
  using assms
  by (simp add: run_job_def retry_check_in_def add_job_def floor_minute_on_minute Let_def job_def)

text \<open>
  C3, as amended. Let the hourly tick run in the minute that starts at \<open>T\<close> and find the
  recipient busy, and let every callback run within a minute of its run date. The first
  retry is set for \<open>T\<close> + 5 minutes. While the recipient stays busy, the first retry
  sets the second for \<open>T\<close> + 10 minutes, the second sets the third for \<open>T\<close> + 20 minutes,
  and the third sets a fourth callback for \<open>T\<close> + 30 minutes. That callback, whatever the
  busy predicate says and whenever it runs, gives up: no job is left, and the state,
  with its check-ins, is the one before the hourly tick.
\<close>

theorem busy_retry_schedule:
  assumes cfg: "get_configured_chat_id s = Some cid" "cid \<noteq> 0" "\<not> is_user_sleeping cid s"
    and idle: "jobs s = []"
    and T: "T mod minute_us = 0"
    and l: "0 \<le> l" "l < minute_us"
  shows "send_hourly_check_in (T + l) True d s = s\<lparr>jobs := [job (T + 5 * minute_us) cid 1]\<rparr>
    \<and> run_job (T + 5 * minute_us + l) True d (job (T + 5 * minute_us) cid 1)
          (s\<lparr>jobs := [job (T + 5 * minute_us) cid 1]\<rparr>)
        = s\<lparr>jobs := [job (T + 10 * minute_us) cid 2]\<rparr>
    \<and> run_job (T + 10 * minute_us + l) True d (job (T + 10 * minute_us) cid 2)
          (s\<lparr>jobs := [job (T + 10 * minute_us) cid 2]\<rparr>)
        = s\<lparr>jobs := [job (T + 20 * minute_us) cid 3]\<rparr>
    \<and> run_job (T + 20 * minute_us + l) True d (job (T + 20 * minute_us) cid 3)
          (s\<lparr>jobs := [job (T + 20 * minute_us) cid 3]\<rparr>)
        = s\<lparr>jobs := [job (T + 30 * minute_us) cid 4]\<rparr>
    \<and> run_job t busy d (job (T + 30 * minute_us) cid 4)
          (s\<lparr>jobs := [job (T + 30 * minute_us) cid 4]\<rparr>)
        = s"
proof -
  have 0: "send_hourly_check_in (T + l) True d s = s\<lparr>jobs := [job (T + 5 * minute_us) cid 1]\<rparr>"
    using cfg idle T l
    by (simp add: send_hourly_check_in_def add_job_def floor_minute_on_minute)
  have 1: "run_job (T + 5 * minute_us + l) True d (job (T + 5 * minute_us) cid 1)
             (s\<lparr>jobs := [job (T + 5 * minute_us) cid 1]\<rparr>)
           = s\<lparr>jobs := [job (T + 10 * minute_us) cid 2]\<rparr>"
    using run_job_busy [of 1 "T + 5 * minute_us" l d cid s] T l by (simp add: ac_simps)
  have 2: "run_job (T + 10 * minute_us + l) True d (job (T + 10 * minute_us) cid 2)
             (s\<lparr>jobs := [job (T + 10 * minute_us) cid 2]\<rparr>)
           = s\<lparr>jobs := [job (T + 20 * minute_us) cid 3]\<rparr>"
    using run_job_busy [of 2 "T + 10 * minute_us" l d cid s] T l by (simp add: ac_simps)
  have 3: "run_job (T + 20 * minute_us + l) True d (job (T + 20 * minute_us) cid 3)
             (s\<lparr>jobs := [job (T + 20 * minute_us) cid 3]\<rparr>)
           = s\<lparr>jobs := [job (T + 30 * minute_us) cid 4]\<rparr>"
    using run_job_busy [of 3 "T + 20 * minute_us" l d cid s] T l by (simp add: ac_simps)
  have 4: "run_job t busy d (job (T + 30 * minute_us) cid 4)
             (s\<lparr>jobs := [job (T + 30 * minute_us) cid 4]\<rparr>) = s"
    using idle by (simp add: run_job_def retry_check_in_def job_def)
  from 0 1 2 3 4 show ?thesis by simp
qed

lemmas retry_defs = run_job_def retry_check_in_def add_job_def floor_minute_def job_def

text \<open>The hourly tick of 10:00, a quarter of a second late, on the store of a busy recipient.\<close>

theorem busy_retry_schedule_witness:
  "get_configured_chat_id empty_store = Some 42 \<and> \<not> is_user_sleeping 42 empty_store
   \<and> jobs empty_store = [] \<and> combine 0 10 0 mod minute_us = 0
   \<and> send_hourly_check_in (combine 0 10 0 + 250000) True True empty_store
       = empty_store\<lparr>jobs := [job (combine 0 10 5) 42 1]\<rparr>
   \<and> run_job (combine 0 10 30 + 250000) True True (job (combine 0 10 30) 42 4)
        (empty_store\<lparr>jobs := [job (combine 0 10 30) 42 4]\<rparr>) = empty_store"
  using busy_retry_schedule [where s = empty_store and cid = 42 and T = "combine 0 10 0"
      and l = 250000 and d = True and t = "combine 0 10 30 + 250000" and busy = True]
  by (simp add: sched_defs example_defs retry_defs)

text \<open>
  C3 as stated fails: after the hourly tick of 10:00 and the retry of 10:05, both busy, the
  second retry is set for 10:10, not 10:15, and the third for 10:20, not 10:25. The
  hourly tick waits 5 minutes and \<^verbatim>\<open>_retry_check_in\<close> waits 5 minutes again when its
  \<^verbatim>\<open>retry_count\<close> is 1.
\<close>

theorem retry_at_ten_minutes_counterexample:
  "send_hourly_check_in (combine 0 10 0) True True empty_store
     = empty_store\<lparr>jobs := [job (combine 0 10 5) 42 1]\<rparr>
   \<and> run_job (combine 0 10 5) True True (job (combine 0 10 5) 42 1)
        (empty_store\<lparr>jobs := [job (combine 0 10 5) 42 1]\<rparr>)
     = empty_store\<lparr>jobs := [job (combine 0 10 10) 42 2]\<rparr>
   \<and> run_job (combine 0 10 10) True True (job (combine 0 10 10) 42 2)
        (empty_store\<lparr>jobs := [job (combine 0 10 10) 42 2]\<rparr>)
     = empty_store\<lparr>jobs := [job (combine 0 10 20) 42 3]\<rparr>
   \<and> combine 0 10 10 \<noteq> combine 0 10 15 \<and> combine 0 10 20 \<noteq> combine 0 10 25"
  by (simp add: sched_defs example_defs retry_defs)


subsection \<open>A classifier that raises\<close>

text \<open>
  C4, on the code. The reply \<^verbatim>\<open>worked on report\<close> to check-in 1 of \<open>one_sent\<close>, with a
  classifier that raises: the caller gets the fallback judgment (\<^verbatim>\<open>beneficial\<close>, score 5),
  and the store is as it was, check-in 1 still \<^verbatim>\<open>sent\<close> and no activity logged. When the
  answer of the classifier is not JSON, the same reply leaves the check-in \<^verbatim>\<open>completed\<close>
  and one activity log.
\<close>

theorem classifier_exception_leaves_sent:
  "analyze_activity (combine 0 10 20) (combine 0 10 20) ''worked on report'' 1
       (Raises ''503 service unavailable'') one_sent
     = (error_fallback ''worked on report'' ''503 service unavailable'', one_sent)
   \<and> an_productivity_type (error_fallback ''worked on report'' ''503 service unavailable'')
       = Some ''beneficial''
   \<and> an_alignment_score (error_fallback ''worked on report'' ''503 service unavailable'') = Some 5
   \<and> map status (check_ins one_sent) = [''sent'']
   \<and> activity_logs one_sent = []
   \<and> map status (check_ins (snd (analyze_activity (combine 0 10 20) (combine 0 10 20)
         ''worked on report'' 1 NotJson one_sent))) = [''completed'']
   \<and> length (activity_logs (snd (analyze_activity (combine 0 10 20) (combine 0 10 20)
         ''worked on report'' 1 NotJson one_sent))) = 1"
  by (simp add: analyze_activity_def error_fallback_def parse_fallback_def
      update_check_in_status_def save_activity_log_def one_sent_def example_defs)


subsection \<open>The lower bound of the reconciliation window\<close>

lemma of_char_digit_char: "d < 10 \<Longrightarrow> (of_char (digit_char d) :: nat) = 48 + d"
  by (simp add: digit_char_def)

lemma digit_val_digit_char: "d < 10 \<Longrightarrow> digit_val (digit_char d) = Some (int d)"
  by (simp add: digit_val_def of_char_digit_char)

lemma digit_char_not_space: "d < 10 \<Longrightarrow> \<not> is_space (digit_char d)"
  by (simp add: is_space_def of_char_digit_char)

lemma digit_char_neq:
  assumes "d < 10" "(of_char c :: nat) < 48 \<or> 57 < (of_char c :: nat)"
  shows "digit_char d \<noteq> c"
proof
  assume "digit_char d = c"
  then have "(of_char c :: nat) = 48 + d" using assms(1) of_char_digit_char by blast
  with assms show False by auto
qed

lemma py_int_two_digits:
  assumes "n < 100"
  shows "py_int (two_digits n) = Some (int n)"
proof -
  have a: "n div 10 < 10" and b: "n mod 10 < 10" using assms by auto
  have strip: "py_strip (two_digits n) = two_digits n"
    by (simp add: py_strip_def two_digits_def digit_char_not_space a b)
  have "int (n div 10) * 10 + int (n mod 10) = int n"
    by (metis mult.commute of_nat_add of_nat_mult of_nat_numeral div_mult_mod_eq)
  then show ?thesis
    using digit_char_neq [OF a, of "CHR ''-''"] digit_char_neq [OF a, of "CHR ''+''"]
      digit_char_neq [OF a, of "CHR ''_''"] digit_char_neq [OF b, of "CHR ''_''"]
    by (simp add: py_int_def strip) (simp add: two_digits_def digit_val_digit_char a b)
qed

lemma split_on_hhmm:
  assumes "h < 100" "m < 100"
  shows "split_on CHR '':'' (hhmm h m) = [two_digits h, two_digits m]"
proof -
  have "h div 10 < 10" "h mod 10 < 10" "m div 10 < 10" "m mod 10 < 10" using assms by auto
  then show ?thesis
    using digit_char_neq [of _ "CHR '':''"]
    by (simp add: hhmm_def two_digits_def)
qed

lemma default_wake_datetime_hhmm:
  assumes "h < 24" "m < 60"
  shows "default_wake_datetime today (Some (hhmm h m)) = Inr (combine today (int h) (int m))"
proof -
  have ne: "hhmm h m \<noteq> []" by (simp add: hhmm_def)
  show ?thesis
    using assms ne
    by (simp add: default_wake_datetime_def split_on_hhmm py_int_two_digits)
qed

lemma default_wake_datetime_unset:
  "default_wake_datetime today None = Inr (combine today 8 0)"
  "default_wake_datetime today (Some []) = Inr (combine today 8 0)"
proof -
  have "''08:00'' = hhmm 8 0" by code_simp
  then have "default_wake_datetime today (Some ''08:00'') = Inr (combine today 8 0)"
    using default_wake_datetime_hhmm [of 8 0 today] by simp
  then show "default_wake_datetime today None = Inr (combine today 8 0)"
    and "default_wake_datetime today (Some []) = Inr (combine today 8 0)"
    by (simp_all add: default_wake_datetime_def)
qed

text \<open>
  C8. Let the recipient have a recorded sleep start, and let the default wake time be
  unset (then \<open>h\<close> = 8 and \<open>m\<close> = 0) or the text \<^verbatim>\<open>HH:MM\<close> of an hour below 24 and a minute
  below 60. Then \<^verbatim>\<open>retroactive_start\<close> is the later of the sleep start and the time \<open>h\<close>:\<open>m\<close>
  of today, and it is the lower bound of the window in which \<^verbatim>\<open>handle_wake_button\<close>
  marks check-ins.
\<close>

theorem retroactive_start_is_max:
  assumes "find (\<lambda>u. chat_id u = cid) (user_configs s) = Some u"
    and "sleep_start_time u = Some sleep_start"
    and "default_wake_time u = None \<and> h = 8 \<and> m = 0
         \<or> default_wake_time u = Some (hhmm h m) \<and> h < 24 \<and> m < 60"
  shows "retroactive_start today u sleep_start
           = Inr (max sleep_start (combine today (int h) (int m)))
    \<and> check_ins (snd (handle_wake_button cid today now s))
        = map (mark_sleeping (max sleep_start (combine today (int h) (int m))) now) (check_ins s)"
proof -
  have d: "default_wake_datetime today (default_wake_time u) = Inr (combine today (int h) (int m))"
    using assms(3) default_wake_datetime_hhmm [of h m today] default_wake_datetime_unset(1) [of today]
    by auto
  then have r: "retroactive_start today u sleep_start
      = Inr (max sleep_start (combine today (int h) (int m)))"
    by (simp add: retroactive_start_def)
  show ?thesis
    using assms(1,2) r by (simp add: handle_wake_button_def Let_def)
qed


lemma hhmm_8_0: "hhmm 8 0 = ''08:00''"
  by code_simp

lemma sleeper_window: "retroactive_start 1 sleeper (combine 0 23 0) = Inr (combine 1 8 0)"
proof -
  have "default_wake_time sleeper = Some (hhmm 8 0)"
    by (simp add: hhmm_8_0 sleeper_def recipient_def)
  then have "default_wake_datetime 1 (default_wake_time sleeper) = Inr (combine 1 8 0)"
    using default_wake_datetime_hhmm [of 8 0 1] by simp
  then show ?thesis
    by (simp add: retroactive_start_def combine_def day_us_def hour_us_def minute_us_def
        second_us_def)
qed

lemma after_night_config:
  "find (\<lambda>u. chat_id u = 42) (user_configs after_night) = Some sleeper
   \<and> sleep_start_time sleeper = Some (combine 0 23 0)"
  by (simp add: after_night_def sleeper_def recipient_def)

lemma after_night_wake:
  "check_ins (snd (handle_wake_button 42 1 (combine 1 10 0) after_night))
     = [row_at 1 (combine 1 7 0) ''missed'', row_at 2 (combine 1 8 0) ''sleeping'',
        row_at 3 (combine 1 9 0) ''sent'',
        (row_at 4 (combine 1 9 30) ''completed'')\<lparr>response_time := Some (combine 1 9 40)\<rparr>]"
proof -
  have "check_ins (snd (handle_wake_button 42 1 (combine 1 10 0) after_night))
      = map (mark_sleeping (combine 1 8 0) (combine 1 10 0)) (check_ins after_night)"
    using after_night_config sleeper_window by (simp add: handle_wake_button_def Let_def)
  then show ?thesis
    by (simp add: after_night_def mark_sleeping_def in_window_def row_at_def combine_def
        day_us_def hour_us_def minute_us_def second_us_def)
qed

text \<open>
  The store \<open>after_night\<close>, Wake pressed at 10:00 of day 1: the sleep began at 23:00 of day
  0, the default wake time is \<^verbatim>\<open>08:00\<close>, and the window begins at 08:00 of day 1.
\<close>

theorem retroactive_start_is_max_witness:
  "find (\<lambda>u. chat_id u = 42) (user_configs after_night) = Some sleeper
   \<and> sleep_start_time sleeper = Some (combine 0 23 0)
   \<and> default_wake_time sleeper = Some (hhmm 8 0)
   \<and> retroactive_start 1 sleeper (combine 0 23 0) = Inr (combine 1 8 0)
   \<and> map status (check_ins (snd (handle_wake_button 42 1 (combine 1 10 0) after_night)))
       = [''missed'', ''sleeping'', ''sent'', ''completed'']"
  using retroactive_start_is_max [of 42 after_night sleeper "combine 0 23 0" 8 0 1 "combine 1 10 0"]
    after_night_config sleeper_window
  by (simp add: after_night_wake) (simp add: hhmm_8_0 sleeper_def recipient_def row_at_def)

subsection \<open>The check-ins of the window\<close>





subsection \<open>The pending pointer\<close>

lemma sent_time_le_total: "sent_time_le a b \<or> sent_time_le b a"
  by (auto simp: sent_time_le_def split: option.splits)

lemma sent_time_le_trans: "sent_time_le a b \<Longrightarrow> sent_time_le b c \<Longrightarrow> sent_time_le a c"
  by (auto simp: sent_time_le_def split: option.splits)

lemma sent_time_le_refl: "sent_time_le a a"
  by (auto simp: sent_time_le_def split: option.splits)

lemma latest_sent_None: "latest_sent rs = None \<longleftrightarrow> rs = []"
  by (induction rs) (auto split: option.splits)

lemma latest_sent_Some:
  "latest_sent rs = Some r \<Longrightarrow>
     r \<in> set rs \<and> (\<forall>r' \<in> set rs. sent_time_le (sent_time r') (sent_time r))"
proof (induction rs arbitrary: r)
  case Nil
  then show ?case by simp
next
  case (Cons x xs)
  show ?case
  proof (cases "latest_sent xs")
    case None
    then have "xs = []" by (simp add: latest_sent_None)
    with Cons.prems None show ?thesis by (simp add: sent_time_le_refl)
  next
    case (Some y)
    note IH = Cons.IH [OF Some]
    show ?thesis
    proof (cases "sent_time_le (sent_time y) (sent_time x)")
      case True
      with Cons.prems Some have "r = x" by simp
      with True IH show ?thesis
        by (auto simp: sent_time_le_refl intro: sent_time_le_trans)
    next
      case False
      with Cons.prems Some have "r = y" by simp
      moreover have "sent_time_le (sent_time x) (sent_time y)"
        using False sent_time_le_total by blast
      ultimately show ?thesis using IH by auto
    qed
  qed
qed

text \<open>
  C9, as amended. When the pointer is empty (\<^verbatim>\<open>None\<close>, or 0, which Python takes for empty
  too), \<^verbatim>\<open>get_pending_check_in\<close> reads the store: with no row of status \<^verbatim>\<open>sent\<close> it returns
  the pointer as it is and changes nothing; otherwise it returns, and keeps in the
  pointer, the key of a row of status \<^verbatim>\<open>sent\<close> whose \<^verbatim>\<open>sent_time\<close> no other such row
  exceeds. When the pointer holds a key other than 0, that key is returned and the store
  is not read.
\<close>

theorem get_pending_check_in_cases:
  "(pending_check_in_id s = None \<or> pending_check_in_id s = Some 0 \<longrightarrow>
      (sent_rows s = [] \<longrightarrow> get_pending_check_in s = (pending_check_in_id s, s))
    \<and> (sent_rows s \<noteq> [] \<longrightarrow>
         (\<exists>r \<in> set (check_ins s). status r = ''sent''
            \<and> (\<forall>r' \<in> set (check_ins s).
                  status r' = ''sent'' \<longrightarrow> sent_time_le (sent_time r') (sent_time r))
            \<and> get_pending_check_in s = (Some (ci_id r), s\<lparr>pending_check_in_id := Some (ci_id r)\<rparr>))))
   \<and> (\<forall>p. pending_check_in_id s = Some p \<and> p \<noteq> 0 \<longrightarrow> get_pending_check_in s = (Some p, s))"
proof -
  have a: "sent_rows s = [] \<Longrightarrow> latest_sent (sent_rows s) = None"
    by simp
  have b: "\<exists>r \<in> set (check_ins s). status r = ''sent''
            \<and> (\<forall>r' \<in> set (check_ins s).
                  status r' = ''sent'' \<longrightarrow> sent_time_le (sent_time r') (sent_time r))
            \<and> latest_sent (sent_rows s) = Some r"
    if "sent_rows s \<noteq> []"
  proof -
    from that obtain r where r: "latest_sent (sent_rows s) = Some r"
      using latest_sent_None [of "sent_rows s"] by (cases "latest_sent (sent_rows s)") auto
    from latest_sent_Some [OF r] have "r \<in> set (sent_rows s)"
      and "\<forall>r' \<in> set (sent_rows s). sent_time_le (sent_time r') (sent_time r)" by auto
    with r show ?thesis by (auto simp: sent_rows_def)
  qed
  show ?thesis
    using a b unfolding get_pending_check_in_def sent_rows_def [symmetric]
    by (cases "sent_rows s = []") auto
qed

text \<open>
  With the pointer of \<open>two_sent\<close> cleared, the key 2 of the prompt of 11:00 is found again;
  the empty store gives \<^verbatim>\<open>None\<close>; and the pointer of \<open>two_sent\<close> is returned as it is.
\<close>

theorem get_pending_check_in_cases_witness:
  "pending_check_in_id (clear_pending_check_in two_sent) = None
   \<and> sent_rows (clear_pending_check_in two_sent) \<noteq> []
   \<and> get_pending_check_in (clear_pending_check_in two_sent) = (Some 2, two_sent)
   \<and> get_pending_check_in empty_store = (None, empty_store)
   \<and> get_pending_check_in two_sent = (Some 2, two_sent)"
  using get_pending_check_in_cases [of "clear_pending_check_in two_sent"]
    get_pending_check_in_cases [of empty_store] get_pending_check_in_cases [of two_sent]
  by (simp add: get_pending_check_in_def clear_pending_check_in_def sent_rows_def
      sent_time_le_def example_defs)

text \<open>
  C9 as stated fails when the pointer is not empty: in \<open>stale_pointer\<close> check-in 2 has
  status \<^verbatim>\<open>sent\<close>, and the function returns 1, the key of a check-in that is \<^verbatim>\<open>missed\<close>.
\<close>

theorem stale_pointer_returned_counterexample:
  "map ci_id (check_ins stale_pointer) = [1, 2]
   \<and> map status (check_ins stale_pointer) = [''missed'', ''sent'']
   \<and> pending_check_in_id stale_pointer = Some 1
   \<and> get_pending_check_in stale_pointer = (Some 1, stale_pointer)"
  by (simp add: get_pending_check_in_def stale_pointer_def example_defs)


subsection \<open>The activity logs of the sleeping check-ins\<close>



















end
